theory Spec2Isabelle
  imports Complex_Main "HOL-Library.Multiset" "HOL-Library.List_Lexorder" "HOL-Library.Char_ord"
    "HOL-Library.AList"
begin

section \<open>The data model of converter.go\<close>

text \<open>
  Go strings are byte sequences; \<open>string\<close> is a list of 8-bit characters, and with
  \<open>List_Lexorder\<close> and \<open>Char_ord\<close> the order \<open><\<close> on strings is the byte-wise
  lexicographic order of Go's \<^verbatim>\<open><\<close> on strings.

  A \<^verbatim>\<open>TestNode\<close> is recursive, so it is a datatype; its selectors carry the names of the
  Go fields. The fields \<^verbatim>\<open>SummaryRef\<close> and \<^verbatim>\<open>ActivitySummaries\<close> are decoded but
  never read by the converter and are left out.
\<close>

datatype TestNode = TestNode
  (Children: "TestNode list")
  (Name: string)
  (NodeType: string)
  (Duration: string)
  (Result: string)
  (NodeIdentifier: string)

record Device =
  Architecture :: string
  DeviceID :: string
  DeviceName :: string
  ModelName :: string
  OsVersion :: string
  Platform :: string

record XCResultRoot =
  Devices :: "Device list"
  TestNodes :: "TestNode list"

text \<open>
  The JUnit structs. Several Go structs have a field \<^verbatim>\<open>Name\<close>, \<^verbatim>\<open>Time\<close> or
  \<^verbatim>\<open>Message\<close>; the record fields are prefixed (\<open>fl_\<close> for \<^verbatim>\<open>JUnitFailure\<close>,
  \<open>sk_\<close> for \<^verbatim>\<open>JUnitSkipped\<close>, \<open>tc_\<close> for \<^verbatim>\<open>JUnitTestCase\<close>, \<open>ts_\<close> for
  \<^verbatim>\<open>JUnitTestSuite\<close>). A nil pointer is \<open>None\<close>. The type \<open>'f\<close> stands for
  \<^verbatim>\<open>float64\<close>, whose operations are supplied by the runtime record below. The length of
  a slice and the failure counter are Go \<^verbatim>\<open>int\<close>s; a slice in memory never holds
  \<open>2^63\<close> elements, so they are modelled as unbounded integers.
\<close>

record JUnitFailure =
  fl_Message :: string
  fl_Type :: string
  fl_Content :: string

record JUnitSkipped =
  sk_Message :: string

record 'f JUnitTestCase =
  tc_Name :: string
  tc_Classname :: string
  tc_Time :: 'f
  tc_Failure :: "JUnitFailure option"
  tc_Skipped :: "JUnitSkipped option"

record 'f JUnitTestSuite =
  ts_Name :: string
  ts_Tests :: int
  ts_Failures :: int
  ts_Errors :: int
  ts_Time :: 'f
  ts_Timestamp :: string
  ts_TestCases :: "'f JUnitTestCase list"

record 'f JUnitTestSuites =
  TestSuites :: "'f JUnitTestSuite list"

section \<open>What the converter takes from the Go runtime and standard library\<close>

text \<open>
  The converter calls into the standard library for everything that concerns
  floating-point numbers, the clock, the iteration order of a map and the order in which
  \<^verbatim>\<open>sort.Slice\<close> leaves elements with equal keys. None of this is code of the repository,
  so it is a parameter of the model:
  \<^item> \<open>ParseFloat\<close> is \<^verbatim>\<open>strconv.ParseFloat(s, 64)\<close>: the value and the error
    (\<open>None\<close> for \<^verbatim>\<open>nil\<close>);
  \<^item> \<open>fzero\<close> is the \<^verbatim>\<open>float64\<close> zero and \<open>fadd\<close> its addition;
  \<^item> \<open>FormatFloat\<close> is how \<^verbatim>\<open>encoding/xml\<close> prints a \<^verbatim>\<open>float64\<close> attribute;
  \<^item> \<open>EscapeText\<close> is the escaping \<^verbatim>\<open>encoding/xml\<close> applies to attribute values and
    character data;
  \<^item> \<open>Now n\<close> is \<^verbatim>\<open>time.Now().Format(time.RFC3339)\<close> at the \<open>n\<close>-th reading of the
    clock (counted from 0) during one conversion;
  \<^item> \<open>RangeOrder n\<close> is the order in which a \<^verbatim>\<open>range\<close> loop visits the entries of a
    map with \<open>n\<close> entries, as a list of positions;
  \<^item> \<open>SortOrder keys\<close> is the rearrangement \<^verbatim>\<open>sort.Slice\<close> performs on a slice whose
    elements have the given keys under the comparison \<^verbatim>\<open><\<close>: the list of the old
    positions, in their new order. \<^verbatim>\<open>sort.Slice\<close> sees the elements only through the
    comparison, so the rearrangement is a function of the keys.
\<close>

datatype NumError = ErrSyntax | ErrRange

record 'f runtime =
  ParseFloat :: "string \<Rightarrow> 'f \<times> NumError option"
  fzero :: 'f
  fadd :: "'f \<Rightarrow> 'f \<Rightarrow> 'f"
  FormatFloat :: "'f \<Rightarrow> string"
  EscapeText :: "string \<Rightarrow> string"
  Now :: "nat \<Rightarrow> string"
  RangeOrder :: "nat \<Rightarrow> nat list"
  SortOrder :: "string list \<Rightarrow> nat list"

text \<open>
  The contracts of the standard library the theorems below rely on, each only where it is
  needed: a \<^verbatim>\<open>range\<close> loop visits every entry once; \<^verbatim>\<open>sort.Slice\<close> permutes the
  slice and leaves it ordered (no element is smaller than one before it);
  \<^verbatim>\<open>strconv.ParseFloat\<close> returns 0 together with a syntax error.
\<close>

definition range_ok :: "'f runtime \<Rightarrow> bool" where
  "range_ok env \<longleftrightarrow> (\<forall>n. mset (RangeOrder env n) = mset [0..<n])"

definition sort_ok :: "'f runtime \<Rightarrow> bool" where
  "sort_ok env \<longleftrightarrow>
     (\<forall>keys. mset (SortOrder env keys) = mset [0..<length keys] \<and>
             sorted (map (\<lambda>i. keys ! i) (SortOrder env keys)))"

definition parse_ok :: "'f runtime \<Rightarrow> bool" where
  "parse_ok env \<longleftrightarrow>
     (\<forall>s. snd (ParseFloat env s) = Some ErrSyntax \<longrightarrow> fst (ParseFloat env s) = fzero env)"

section \<open>The functions of package strings the converter calls\<close>

definition HasPrefix :: "string \<Rightarrow> string \<Rightarrow> bool" where
  "HasPrefix s pre \<longleftrightarrow> length pre \<le> length s \<and> take (length pre) s = pre"

definition HasSuffix :: "string \<Rightarrow> string \<Rightarrow> bool" where
  "HasSuffix s suffix \<longleftrightarrow>
     length suffix \<le> length s \<and> drop (length s - length suffix) s = suffix"

definition TrimSuffix :: "string \<Rightarrow> string \<Rightarrow> string" where
  "TrimSuffix s suffix =
     (if HasSuffix s suffix then take (length s - length suffix) s else s)"

fun Contains :: "string \<Rightarrow> string \<Rightarrow> bool" where
  "Contains [] substr = (substr = [])"
| "Contains (c # s) substr = (HasPrefix (c # s) substr \<or> Contains s substr)"

text \<open>
  \<^verbatim>\<open>strings.Split(s, sep)\<close> for a separator of one byte, the only way the converter calls
  it: the substrings between the separators, one more than there are separators.
\<close>

fun Split :: "string \<Rightarrow> char \<Rightarrow> string list" where
  "Split [] sep = [[]]"
| "Split (c # s) sep =
     (if c = sep then [] # Split s sep
      else (c # hd (Split s sep)) # tl (Split s sep))"

section \<open>The converter\<close>

text \<open>\<^verbatim>\<open>parseDuration\<close>: the error of \<^verbatim>\<open>ParseFloat\<close> is dropped, its value returned.\<close>

definition parseDuration :: "'f runtime \<Rightarrow> string \<Rightarrow> 'f" where
  "parseDuration env dur =
     (let dur' = TrimSuffix dur ''s''
      in if dur' = [] then fzero env else fst (ParseFloat env dur'))"

text \<open>
  \<^verbatim>\<open>extractFailureMessage\<close>: the loop over the children is \<open>extractFromChildren\<close>; it
  returns from inside the loop at a failure message, and at a child whose own search
  returned anything but the fallback text.
\<close>

fun extractFailureMessage :: "TestNode \<Rightarrow> string"
  and extractFromChildren :: "TestNode list \<Rightarrow> string" where
  "extractFailureMessage (TestNode children name nodeType duration result ident) =
     extractFromChildren children"
| "extractFromChildren [] = ''Test failed''"
| "extractFromChildren (child # rest) =
     (if NodeType child = ''Failure Message'' then Name child
      else let message = extractFailureMessage child
           in if message \<noteq> ''Test failed'' then message
              else extractFromChildren rest)"

definition buildClassName :: "string \<Rightarrow> string \<Rightarrow> string" where
  "buildClassName current newPart =
     (if current = [] then newPart else current @ ''.'' @ newPart)"

definition totalSuiteTime :: "'f runtime \<Rightarrow> 'f JUnitTestCase list \<Rightarrow> 'f" where
  "totalSuiteTime env cases =
     foldl (\<lambda>total tc. fadd env total (tc_Time tc)) (fzero env) cases"

text \<open>
  The suite map \<^verbatim>\<open>map[string]*JUnitTestSuite\<close> is an association list with one entry
  per key, a new key added at the end (\<open>AList.update\<close>); the order of the list is not what
  a \<^verbatim>\<open>range\<close> loop sees, that is \<open>RangeOrder\<close>. The state of the traversal is the map
  and the number of clock readings so far.
\<close>

type_synonym 'f suiteMap = "(string \<times> 'f JUnitTestSuite) list"

type_synonym 'f flatten_state = "'f suiteMap \<times> nat"

definition newSuite :: "'f runtime \<Rightarrow> string \<Rightarrow> nat \<Rightarrow> 'f JUnitTestSuite" where
  "newSuite env suiteName n =
     \<lparr>ts_Name = suiteName, ts_Tests = 0, ts_Failures = 0, ts_Errors = 0,
      ts_Time = fzero env, ts_Timestamp = Now env n, ts_TestCases = []\<rparr>"

definition processTestCase ::
  "'f runtime \<Rightarrow> TestNode \<Rightarrow> string \<Rightarrow> 'f flatten_state \<Rightarrow> 'f flatten_state" where
  "processTestCase env node classname st =
     (if \<not> Contains (NodeIdentifier node) ''/'' then st
      else let parts = Split (NodeIdentifier node) CHR ''/'' in
        if length parts < 2 then st
        else let
          suiteName = (if hd parts = [] then ''UnknownSuite'' else hd parts);
          (suite, n) = (case map_of (fst st) suiteName of
                          Some s \<Rightarrow> (s, snd st)
                        | None \<Rightarrow> (newSuite env suiteName (snd st), Suc (snd st)));
          duration = parseDuration env (Duration node);
          testCase = \<lparr>tc_Name = Name node, tc_Classname = classname, tc_Time = duration,
                      tc_Failure = None, tc_Skipped = None\<rparr>;
          (testCase, suite) =
            (if Result node = ''Failed''
             then let failureMessage = extractFailureMessage node
                  in (testCase\<lparr>tc_Failure := Some \<lparr>fl_Message = failureMessage,
                        fl_Type = ''Failure'', fl_Content = failureMessage\<rparr>\<rparr>,
                      suite\<lparr>ts_Failures := ts_Failures suite + 1\<rparr>)
             else (testCase, suite))
        in (AList.update suiteName
              (suite\<lparr>ts_TestCases := ts_TestCases suite @ [testCase]\<rparr>) (fst st), n))"

text \<open>
  \<^verbatim>\<open>processTestNodes\<close>: the loop over the nodes, and its body \<open>processTestNode\<close>, the
  \<^verbatim>\<open>switch\<close> on the node type.
\<close>

function processTestNodes ::
  "'f runtime \<Rightarrow> TestNode list \<Rightarrow> string \<Rightarrow> 'f flatten_state \<Rightarrow> 'f flatten_state"
  and processTestNode ::
  "'f runtime \<Rightarrow> TestNode \<Rightarrow> string \<Rightarrow> 'f flatten_state \<Rightarrow> 'f flatten_state" where
  "processTestNodes env [] classname st = st"
| "processTestNodes env (node # nodes) classname st =
     processTestNodes env nodes classname (processTestNode env node classname st)"
| "processTestNode env (TestNode children name nodeType duration result ident) classname st =
     (if nodeType = ''Unit test bundle'' \<or> nodeType = ''UI test bundle''
         \<or> nodeType = ''Test Suite''
      then processTestNodes env children (buildClassName classname name) st
      else if nodeType = ''Test Case''
      then processTestCase env (TestNode children name nodeType duration result ident)
             classname st
      else if nodeType = ''Test Plan'' \<or> nodeType = ''Test Plan Configuration''
      then processTestNodes env children classname st
      else st)"
  by pat_completeness auto
termination
  by (relation "measure (\<lambda>x. case x of
        Inl (env, nodes, classname, st) \<Rightarrow> size_list size nodes
      | Inr (env, node, classname, st) \<Rightarrow> size node)") auto

text \<open>
  The second half of \<^verbatim>\<open>ConvertXCResultJSONToJUnitXML\<close>. \<open>collectSuites\<close> is the loop
  over the map (lines 123-127): in the order of the \<^verbatim>\<open>range\<close> loop, each suite gets its
  test count and its total time and is appended to the slice.
\<close>

definition collectSuites :: "'f runtime \<Rightarrow> 'f suiteMap \<Rightarrow> 'f JUnitTestSuite list" where
  "collectSuites env suiteMap =
     map (\<lambda>i. let suite = snd (suiteMap ! i)
              in suite\<lparr>ts_Tests := int (length (ts_TestCases suite)),
                       ts_Time := totalSuiteTime env (ts_TestCases suite)\<rparr>)
         (RangeOrder env (length suiteMap))"

text \<open>\<^verbatim>\<open>sort.Slice\<close> with a comparison of the elements' keys by \<^verbatim>\<open><\<close>.\<close>

definition sortSlice :: "'f runtime \<Rightarrow> ('a \<Rightarrow> string) \<Rightarrow> 'a list \<Rightarrow> 'a list" where
  "sortSlice env key xs = map (\<lambda>i. xs ! i) (SortOrder env (map key xs))"

definition sortTestSuites :: "'f runtime \<Rightarrow> 'f JUnitTestSuites \<Rightarrow> 'f JUnitTestSuites" where
  "sortTestSuites env suites =
     suites\<lparr>TestSuites :=
       map (\<lambda>s. s\<lparr>ts_TestCases := sortSlice env tc_Name (ts_TestCases s)\<rparr>)
           (sortSlice env ts_Name (TestSuites suites))\<rparr>"

definition defaultSuite :: "'f runtime \<Rightarrow> nat \<Rightarrow> 'f JUnitTestSuite" where
  "defaultSuite env n =
     \<lparr>ts_Name = ''XCTest'', ts_Tests = 0, ts_Failures = 0, ts_Errors = 0,
      ts_Time = fzero env, ts_Timestamp = Now env n, ts_TestCases = []\<rparr>"

text \<open>
  Lines 122-142: from the suite map (and the number of clock readings so far) to the value
  handed to \<^verbatim>\<open>xml.MarshalIndent\<close>.
\<close>

definition assembleSuites :: "'f runtime \<Rightarrow> 'f flatten_state \<Rightarrow> 'f JUnitTestSuites" where
  "assembleSuites env st =
     (let testSuites = sortTestSuites env \<lparr>TestSuites = collectSuites env (fst st)\<rparr>
      in if length (TestSuites testSuites) = 0
         then testSuites\<lparr>TestSuites := TestSuites testSuites @ [defaultSuite env (snd st)]\<rparr>
         else testSuites)"

subsection \<open>The XML document\<close>

text \<open>
  \<^verbatim>\<open>xml.MarshalIndent\<close> works in two steps here: the struct tags decide which elements,
  attributes and character data the value becomes (\<open>marshalTestSuites\<close>), and the printer
  writes them with their indentation (\<open>render\<close>). A nil pointer with \<^verbatim>\<open>omitempty\<close> gives
  no element, an empty string with \<^verbatim>\<open>omitempty\<close> no attribute.
\<close>

datatype xml = Element string "(string \<times> string) list" "xml list" | CharData string

fun natDigits :: "nat \<Rightarrow> string" where
  "natDigits n =
     (if n < 10 then [char_of (48 + n)]
      else natDigits (n div 10) @ [char_of (48 + n mod 10)])"

declare natDigits.simps [simp del]

definition Itoa :: "int \<Rightarrow> string" where
  "Itoa i = (if i < 0 then CHR ''-'' # natDigits (nat (- i)) else natDigits (nat i))"

definition marshalFailure :: "JUnitFailure \<Rightarrow> xml" where
  "marshalFailure f =
     Element ''failure'' [(''message'', fl_Message f), (''type'', fl_Type f)]
       [CharData (fl_Content f)]"

definition marshalSkipped :: "JUnitSkipped \<Rightarrow> xml" where
  "marshalSkipped s =
     Element ''skipped'' (if sk_Message s = [] then [] else [(''message'', sk_Message s)]) []"

definition marshalTestCase :: "'f runtime \<Rightarrow> 'f JUnitTestCase \<Rightarrow> xml" where
  "marshalTestCase env c =
     Element ''testcase''
       [(''name'', tc_Name c), (''classname'', tc_Classname c),
        (''time'', FormatFloat env (tc_Time c))]
       ((case tc_Failure c of None \<Rightarrow> [] | Some f \<Rightarrow> [marshalFailure f]) @
        (case tc_Skipped c of None \<Rightarrow> [] | Some s \<Rightarrow> [marshalSkipped s]))"

definition marshalTestSuite :: "'f runtime \<Rightarrow> 'f JUnitTestSuite \<Rightarrow> xml" where
  "marshalTestSuite env s =
     Element ''testsuite''
       [(''name'', ts_Name s), (''tests'', Itoa (ts_Tests s)),
        (''failures'', Itoa (ts_Failures s)), (''errors'', Itoa (ts_Errors s)),
        (''time'', FormatFloat env (ts_Time s)), (''timestamp'', ts_Timestamp s)]
       (map (marshalTestCase env) (ts_TestCases s))"

definition marshalTestSuites :: "'f runtime \<Rightarrow> 'f JUnitTestSuites \<Rightarrow> xml" where
  "marshalTestSuites env v =
     Element ''testsuites'' [] (map (marshalTestSuite env) (TestSuites v))"

text \<open>
  The printer with prefix \<^verbatim>\<open>""\<close> and indent \<^verbatim>\<open>"  "\<close>: every element starts on a line of
  its own, indented by its depth; character data follows its start tag directly; an end
  tag stands on a line of its own when the element has child elements. Attribute values
  and character data are escaped.
\<close>

fun isElement :: "xml \<Rightarrow> bool" where
  "isElement (Element tag attrs kids) = True"
| "isElement (CharData s) = False"

definition indentation :: "nat \<Rightarrow> string" where
  "indentation depth = concat (replicate depth ''  '')"

definition renderAttr :: "(string \<Rightarrow> string) \<Rightarrow> string \<times> string \<Rightarrow> string" where
  "renderAttr esc a = '' '' @ fst a @ [CHR ''='', CHR 0x22] @ esc (snd a) @ [CHR 0x22]"

fun render :: "(string \<Rightarrow> string) \<Rightarrow> nat \<Rightarrow> xml \<Rightarrow> string" where
  "render esc depth (CharData s) = esc s"
| "render esc depth (Element tag attrs kids) =
     ''<'' @ tag @ concat (map (renderAttr esc) attrs) @ ''>'' @
     concat (map (\<lambda>kid. (if isElement kid then CHR 0x0A # indentation (Suc depth) else [])
                          @ render esc (Suc depth) kid) kids) @
     (if list_ex isElement kids then CHR 0x0A # indentation depth else []) @
     ''</'' @ tag @ ''>''"

definition xml_Header :: string where
  "xml_Header =
     ''<?xml version='' @ [CHR 0x22] @ ''1.0'' @ [CHR 0x22] @ '' encoding='' @ [CHR 0x22]
       @ ''UTF-8'' @ [CHR 0x22] @ ''?>'' @ [CHR 0x0A]"

definition MarshalIndent :: "'f runtime \<Rightarrow> 'f JUnitTestSuites \<Rightarrow> string" where
  "MarshalIndent env v = render (EscapeText env) 0 (marshalTestSuites env v)"

text \<open>
  \<^verbatim>\<open>ConvertXCResultJSONToJUnitXML\<close>. Its argument here is what \<^verbatim>\<open>json.Unmarshal\<close> made
  of the bytes: an error, or the decoded root. Marshalling these structs cannot fail, so
  the second error return of the Go function is never taken. \<open>junitReport\<close> is the
  value of \<^verbatim>\<open>testSuites\<close> at line 144, \<open>junitDocument\<close> the elements it is marshalled to.
\<close>

definition junitReport :: "'f runtime \<Rightarrow> XCResultRoot \<Rightarrow> 'f JUnitTestSuites" where
  "junitReport env xcresult =
     assembleSuites env (processTestNodes env (TestNodes xcresult) [] ([], 0))"

definition junitDocument :: "'f runtime \<Rightarrow> XCResultRoot \<Rightarrow> xml" where
  "junitDocument env xcresult = marshalTestSuites env (junitReport env xcresult)"

definition ConvertXCResultJSONToJUnitXML ::
  "'f runtime \<Rightarrow> string + XCResultRoot \<Rightarrow> string + string" where
  "ConvertXCResultJSONToJUnitXML env unmarshalled =
     (case unmarshalled of
        Inl err \<Rightarrow> Inl (''failed to parse XCResult JSON: '' @ err)
      | Inr xcresult \<Rightarrow> Inr (xml_Header @ MarshalIndent env (junitReport env xcresult)))"

section \<open>The notions of the specification\<close>

text \<open>
  The kinds of node: containers extend the classname, transparent nodes are walked
  through, test cases end the walk.
\<close>

definition isContainer :: "TestNode \<Rightarrow> bool" where
  "isContainer node \<longleftrightarrow>
     NodeType node = ''Unit test bundle'' \<or> NodeType node = ''UI test bundle''
     \<or> NodeType node = ''Test Suite''"

definition isTransparent :: "TestNode \<Rightarrow> bool" where
  "isTransparent node \<longleftrightarrow>
     NodeType node = ''Test Plan'' \<or> NodeType node = ''Test Plan Configuration''"

definition isTestCase :: "TestNode \<Rightarrow> bool" where
  "isTestCase node \<longleftrightarrow> NodeType node = ''Test Case''"

definition isFailureMessage :: "TestNode \<Rightarrow> bool" where
  "isFailureMessage node \<longleftrightarrow> NodeType node = ''Failure Message''"

text \<open>
  The test-case nodes the depth-first, pre-order walk of section 4.1 reaches, in the order
  it reaches them, each with its ancestors from the root down. Nodes of any other kind
  are not entered, and neither are test cases.
\<close>

function testCaseNodes :: "TestNode list \<Rightarrow> TestNode list \<Rightarrow> (TestNode list \<times> TestNode) list"
  and testCaseNodesAt :: "TestNode list \<Rightarrow> TestNode \<Rightarrow> (TestNode list \<times> TestNode) list" where
  "testCaseNodes ancestors [] = []"
| "testCaseNodes ancestors (node # nodes) =
     testCaseNodesAt ancestors node @ testCaseNodes ancestors nodes"
| "testCaseNodesAt ancestors (TestNode children name nodeType duration result ident) =
     (let node = TestNode children name nodeType duration result ident
      in if isContainer node \<or> isTransparent node
         then testCaseNodes (ancestors @ [node]) children
         else if isTestCase node then [(ancestors, node)] else [])"
  by pat_completeness auto
termination
  by (relation "measure (\<lambda>x. case x of
        Inl (ancestors, nodes) \<Rightarrow> size_list size nodes
      | Inr (ancestors, node) \<Rightarrow> size node)") auto

text \<open>A test case is eligible when its hierarchical identifier contains a separator.\<close>

definition eligible :: "TestNode \<Rightarrow> bool" where
  "eligible node \<longleftrightarrow> CHR ''/'' \<in> set (NodeIdentifier node)"

definition eligibleCases :: "TestNode list \<Rightarrow> (TestNode list \<times> TestNode) list" where
  "eligibleCases nodes = filter (\<lambda>(ancestors, node). eligible node) (testCaseNodes [] nodes)"

text \<open>The first segment of an identifier, and the suite name derived from it.\<close>

definition firstSegment :: "string \<Rightarrow> string" where
  "firstSegment ident = takeWhile (\<lambda>c. c \<noteq> CHR ''/'') ident"

definition suiteNameOf :: "TestNode \<Rightarrow> string" where
  "suiteNameOf node =
     (if firstSegment (NodeIdentifier node) = [] then ''UnknownSuite''
      else firstSegment (NodeIdentifier node))"

text \<open>Joining names with a separating dot, and the names of the containers among ancestors.\<close>

fun joinDots :: "string list \<Rightarrow> string" where
  "joinDots [] = []"
| "joinDots [name] = name"
| "joinDots (name # name' # names) = name @ ''.'' @ joinDots (name' # names)"

definition containerNames :: "TestNode list \<Rightarrow> string list" where
  "containerNames ancestors = map Name (filter isContainer ancestors)"

text \<open>
  The descendants of a node in depth-first pre-order, and the display name of the first
  failure-message node among them.
\<close>

fun descendants :: "TestNode \<Rightarrow> TestNode list"
  and descendantsOfAll :: "TestNode list \<Rightarrow> TestNode list" where
  "descendants (TestNode children name nodeType duration result ident) =
     descendantsOfAll children"
| "descendantsOfAll [] = []"
| "descendantsOfAll (child # rest) = child # descendants child @ descendantsOfAll rest"

definition firstFailureMessage :: "TestNode \<Rightarrow> string option" where
  "firstFailureMessage node = map_option Name (find isFailureMessage (descendants node))"

text \<open>
  The test case record \<^verbatim>\<open>processTestCase\<close> appends for an eligible node (lines 200-218),
  and the cases a suite map holds under a name.
\<close>

definition caseRecord :: "'f runtime \<Rightarrow> string \<Rightarrow> TestNode \<Rightarrow> 'f JUnitTestCase" where
  "caseRecord env classname node =
     \<lparr>tc_Name = Name node, tc_Classname = classname,
      tc_Time = parseDuration env (Duration node),
      tc_Failure =
        (if Result node = ''Failed''
         then Some \<lparr>fl_Message = extractFailureMessage node, fl_Type = ''Failure'',
                    fl_Content = extractFailureMessage node\<rparr>
         else None),
      tc_Skipped = None\<rparr>"

definition suiteCases :: "'f suiteMap \<Rightarrow> string \<Rightarrow> 'f JUnitTestCase list" where
  "suiteCases suiteMap name =
     (case map_of suiteMap name of None \<Rightarrow> [] | Some suite \<Rightarrow> ts_TestCases suite)"

text \<open>
  The child elements of an element with a given tag, and the value of an attribute (the
  empty string when the element has no such attribute).
\<close>

fun hasTag :: "string \<Rightarrow> xml \<Rightarrow> bool" where
  "hasTag tag (Element tag' attrs kids) = (tag' = tag)"
| "hasTag tag (CharData s) = False"

fun elements :: "string \<Rightarrow> xml \<Rightarrow> xml list" where
  "elements tag (Element tag' attrs kids) = filter (hasTag tag) kids"
| "elements tag (CharData s) = []"

fun attr :: "string \<Rightarrow> xml \<Rightarrow> string" where
  "attr name (Element tag attrs kids) =
     (case map_of attrs name of None \<Rightarrow> [] | Some v \<Rightarrow> v)"
| "attr name (CharData s) = []"

text \<open>
  The classname prefix \<^verbatim>\<open>processTestNodes\<close> carries below given ancestors: it starts empty
  and \<^verbatim>\<open>buildClassName\<close> extends it at every container.
\<close>

definition classnameAt :: "TestNode list \<Rightarrow> string" where
  "classnameAt ancestors = foldl buildClassName [] (containerNames ancestors)"

text \<open>What \<^verbatim>\<open>processTestCase\<close> does to the state with the record of an eligible node.\<close>

definition appendCase ::
  "'f runtime \<Rightarrow> string \<Rightarrow> 'f JUnitTestCase \<Rightarrow> 'f flatten_state \<Rightarrow> 'f flatten_state" where
  "appendCase env name c st =
     (let suite = (case map_of (fst st) name of
                     Some s \<Rightarrow> s | None \<Rightarrow> newSuite env name (snd st))
      in (AList.update name
            (suite\<lparr>ts_Failures := ts_Failures suite + (if tc_Failure c = None then 0 else 1),
                   ts_TestCases := ts_TestCases suite @ [c]\<rparr>) (fst st),
          if map_of (fst st) name = None then Suc (snd st) else snd st))"

section \<open>A runtime and inputs for the examples\<close>

text \<open>
  A runtime in which every hypothesis of the theorems below holds, for evaluating the
  converter on concrete inputs. Its numbers are exact decimals, \<open>(d, s)\<close> standing for
  \<open>d / 10^s\<close> with no trailing zero after the point; it parses unsigned decimal literals
  without exponent (anything else is a syntax error) and prints them back; its clock
  stands still; a \<^verbatim>\<open>range\<close> loop visits a map from its last entry to its first; sorting
  is by insertion; the escaping is that of \<^verbatim>\<open>encoding/xml\<close> on ASCII text.
\<close>

type_synonym decimal = "nat \<times> nat"

fun normDecimal :: "nat \<Rightarrow> nat \<Rightarrow> decimal" where
  "normDecimal d 0 = (d, 0)"
| "normDecimal d (Suc s) = (if d mod 10 = 0 then normDecimal (d div 10) s else (d, Suc s))"

fun digitsToNat :: "string \<Rightarrow> nat \<Rightarrow> nat option" where
  "digitsToNat [] acc = Some acc"
| "digitsToNat (c # s) acc =
     (if CHR ''0'' \<le> c \<and> c \<le> CHR ''9''
      then digitsToNat s (10 * acc + (of_char c - 48)) else None)"

definition decimalParse :: "string \<Rightarrow> decimal \<times> NumError option" where
  "decimalParse s =
     (let ip = takeWhile (\<lambda>c. c \<noteq> CHR ''.'') s; fp = drop (Suc (length ip)) s
      in if ip = [] \<and> fp = [] then ((0, 0), Some ErrSyntax)
         else case digitsToNat (ip @ fp) 0 of
                Some d \<Rightarrow> (normDecimal d (length fp), None)
              | None \<Rightarrow> ((0, 0), Some ErrSyntax))"

definition decimalAdd :: "decimal \<Rightarrow> decimal \<Rightarrow> decimal" where
  "decimalAdd a b =
     (let s = max (snd a) (snd b)
      in normDecimal (fst a * 10 ^ (s - snd a) + fst b * 10 ^ (s - snd b)) s)"

definition decimalFormat :: "decimal \<Rightarrow> string" where
  "decimalFormat a =
     (let ip = natDigits (fst a div 10 ^ snd a); fp = natDigits (fst a mod 10 ^ snd a)
      in if snd a = 0 then ip
         else ip @ ''.'' @ replicate (snd a - length fp) CHR ''0'' @ fp)"

definition escapeByte :: "char \<Rightarrow> string" where
  "escapeByte c =
     (if c = CHR 0x22 then ''&#34;'' else if c = CHR 0x27 then ''&#39;''
      else if c = CHR ''&'' then ''&amp;'' else if c = CHR ''<'' then ''&lt;''
      else if c = CHR ''>'' then ''&gt;'' else if c = CHR 0x09 then ''&#x9;''
      else if c = CHR 0x0A then ''&#xA;'' else if c = CHR 0x0D then ''&#xD;''
      else [c])"

definition example_env :: "decimal runtime" where
  "example_env =
     \<lparr>ParseFloat = decimalParse, fzero = (0, 0), fadd = decimalAdd,
      FormatFloat = decimalFormat, EscapeText = (\<lambda>s. concat (map escapeByte s)),
      Now = (\<lambda>n. ''2025-03-01T12:00:00Z''),
      RangeOrder = (\<lambda>n. rev [0..<n]),
      SortOrder = (\<lambda>keys. sort_key (\<lambda>i. keys ! i) [0..<length keys])\<rparr>"

text \<open>
  The scenario of section 8: a test case \<^verbatim>\<open>testExample\<close> with the identifier
  \<^verbatim>\<open>MyTestSuite/MyTestGroup/testExample\<close> and the duration \<^verbatim>\<open>0.5s\<close>, under the
  containers \<^verbatim>\<open>MyTestSuite\<close> and \<^verbatim>\<open>MyTestGroup\<close>, with a given result and children.
\<close>

definition example_case :: "string \<Rightarrow> TestNode list \<Rightarrow> TestNode" where
  "example_case result children =
     TestNode children ''testExample'' ''Test Case'' ''0.5s'' result
       ''MyTestSuite/MyTestGroup/testExample''"

definition example_nodes :: "TestNode \<Rightarrow> TestNode list" where
  "example_nodes testCase =
     [TestNode
        [TestNode [testCase] ''MyTestGroup'' ''Test Suite'' ''1.5s'' ''Passed'' []]
        ''MyTestSuite'' ''Unit test bundle'' ''1.5s'' ''Passed'' []]"

section \<open>Properties\<close>

lemma Contains_single: "Contains s [c] \<longleftrightarrow> c \<in> set s"
  by (induction s) (auto simp: HasPrefix_def)

lemma Split_nonempty: "Split s sep \<noteq> []"
  by (induction s) auto

lemma length_Split: "length (Split s sep) = Suc (length (filter (\<lambda>c. c = sep) s))"
  by (induction s) (auto simp: Split_nonempty)

lemma hd_Split: "hd (Split s sep) = takeWhile (\<lambda>c. c \<noteq> sep) s"
  by (induction s) auto

lemma eligible_Contains: "Contains (NodeIdentifier node) ''/'' \<longleftrightarrow> eligible node"
  by (simp add: Contains_single eligible_def)

lemma Split_two: "sep \<in> set s \<Longrightarrow> \<not> length (Split s sep) < 2"
  by (induction s) (auto simp: length_Split)

lemma TrimSuffix_s:
  "TrimSuffix dur ''s'' = (if dur \<noteq> [] \<and> last dur = CHR ''s'' then butlast dur else dur)"
  by (cases dur rule: rev_cases) (auto simp: TrimSuffix_def HasSuffix_def butlast_conv_take)

lemma example_parse_ok: "parse_ok example_env"
  by (simp add: parse_ok_def example_env_def decimalParse_def Let_def split: option.splits)

lemma processTestCase_skip:
  "\<not> eligible node \<Longrightarrow> processTestCase env node classname st = st"
  by (simp add: processTestCase_def eligible_Contains)

lemma processTestCase_eligible:
  "eligible node \<Longrightarrow>
   processTestCase env node classname st =
     appendCase env (suiteNameOf node) (caseRecord env classname node) st"
  by (auto simp: processTestCase_def eligible_Contains Split_two eligible_def appendCase_def
      suiteNameOf_def firstSegment_def hd_Split caseRecord_def Let_def split: option.splits)

subsection \<open>Test cases whose identifier has no separator\<close>

text \<open>
  Claim C4. A node of test-case kind whose hierarchical identifier contains no \<^verbatim>\<open>/\<close> (the
  empty identifier included) leaves the state of the traversal as it was, whatever its
  result: no suite is created, no test case appended, no failure counted and the clock is
  not read. This holds for \<^verbatim>\<open>processTestCase\<close> and for the dispatch on the node in
  \<^verbatim>\<open>processTestNodes\<close>.
\<close>

theorem test_case_without_separator_skipped:
  "isTestCase node \<and> \<not> eligible node \<longrightarrow>
     processTestCase env node classname st = st \<and>
     processTestNode env node classname st = st"
  by (cases node) (auto simp: isTestCase_def processTestCase_skip)

theorem test_case_without_separator_skipped_witness:
  "isTestCase (TestNode [] ''testConfig'' ''Test Case'' ''1s'' ''Failed'' ''NoSeparator'') \<and>
   \<not> eligible (TestNode [] ''testConfig'' ''Test Case'' ''1s'' ''Failed'' ''NoSeparator'') \<and>
   processTestNode example_env
     (TestNode [] ''testConfig'' ''Test Case'' ''1s'' ''Failed'' ''NoSeparator'') [] ([], 0)
     = ([], 0)"
  using test_case_without_separator_skipped
    [of "TestNode [] ''testConfig'' ''Test Case'' ''1s'' ''Failed'' ''NoSeparator''"
      example_env "[]" "([], 0)"]
  by (simp add: isTestCase_def eligible_def)

subsection \<open>Parsing durations\<close>

text \<open>
  Claim C7. \<^verbatim>\<open>parseDuration\<close> returns a number for every string: it has no error result
  and ignores the error of \<^verbatim>\<open>ParseFloat\<close>. One trailing \<^verbatim>\<open>s\<close> is stripped and the rest is
  parsed; an empty rest and a rest that \<^verbatim>\<open>ParseFloat\<close> rejects as syntactically malformed
  give zero, any other rest gives the value \<^verbatim>\<open>ParseFloat\<close> returns. So \<^verbatim>\<open>0.5s\<close> gives the
  value of the literal \<^verbatim>\<open>0.5\<close>, the empty string gives zero, and \<^verbatim>\<open>abc\<close>, which is not a
  number, gives zero. (An out-of-range literal such as \<^verbatim>\<open>1e999\<close> is syntactically well
  formed; \<^verbatim>\<open>ParseFloat\<close> returns an infinity for it, and so does \<^verbatim>\<open>parseDuration\<close>.)
\<close>

theorem parseDuration_never_fails:
  "parse_ok env \<longrightarrow>
     parseDuration env dur =
       (let rest = (if dur \<noteq> [] \<and> last dur = CHR ''s'' then butlast dur else dur)
        in if rest = [] \<or> snd (ParseFloat env rest) = Some ErrSyntax then fzero env
           else fst (ParseFloat env rest)) \<and>
     parseDuration env ''0.5s'' = fst (ParseFloat env ''0.5'') \<and>
     parseDuration env [] = fzero env \<and>
     (snd (ParseFloat env ''abc'') = Some ErrSyntax \<longrightarrow> parseDuration env ''abc'' = fzero env)"
  by (auto simp: parseDuration_def TrimSuffix_s parse_ok_def Let_def)

theorem parseDuration_never_fails_witness:
  "parse_ok example_env \<and>
   snd (ParseFloat example_env ''abc'') = Some ErrSyntax \<and>
   parseDuration example_env ''abc'' = (0, 0) \<and>
   parseDuration example_env [] = (0, 0) \<and>
   parseDuration example_env ''0.5s'' = (5, 1)"
proof -
  have syn: "snd (ParseFloat example_env ''abc'') = Some ErrSyntax"
    by (simp add: example_env_def decimalParse_def)
  have half: "ParseFloat example_env ''0.5'' = ((5, 1), None)"
    by (simp add: example_env_def decimalParse_def)
  have zero: "fzero example_env = (0, 0)"
    by (simp add: example_env_def)
  from parseDuration_never_fails [of example_env "''abc''"] example_parse_ok syn half zero
  show ?thesis by simp
qed

end
